theory Spec2Isabelle
  imports Complex_Main "HOL-Library.AList" "HOL-Library.Char_ord" "HOL-Library.List_Lexorder"
begin

section \<open>Data model of \<^verbatim>\<open>flight_utils.py\<close>\<close>

text \<open>
  The module reads variables of an opened netCDF dataset into a pandas table. The
  embedding keeps the control flow of every function of the module and models the
  library objects it touches as plain data.

  \<^item> A floating-point sample is a \<open>pyfloat\<close>: either \<open>NaN\<close> or a finite value. Finite
    values are idealised as reals (no rounding, no infinities); arithmetic propagates
    \<open>NaN\<close> as IEEE arithmetic does.
  \<^item> An array read with \<^verbatim>\<open>nc[var][:]\<close> is an \<open>ndarray\<close>: rank 0, rank 1, rank 2 (a
    list of rows; numpy arrays are rectangular, the theorems that index a rank-2 array
    say so in their hypotheses) or a higher rank (\<open>ArrN k\<close> has rank \<open>3 + k\<close>) whose
    contents no branch of the module looks at.
  \<^item> An exception is a value of \<open>py_error\<close>; a function that can raise returns
    \<open>py_error + 'a\<close> with \<open>Inl\<close> for the exception.
\<close>

datatype pyfloat = NaN | Fin real

fun fadd :: "pyfloat \<Rightarrow> pyfloat \<Rightarrow> pyfloat" where
  "fadd (Fin a) (Fin b) = Fin (a + b)"
| "fadd _ _ = NaN"

fun fsub :: "pyfloat \<Rightarrow> pyfloat \<Rightarrow> pyfloat" where
  "fsub (Fin a) (Fin b) = Fin (a - b)"
| "fsub _ _ = NaN"

fun fmul :: "pyfloat \<Rightarrow> pyfloat \<Rightarrow> pyfloat" where
  "fmul (Fin a) (Fin b) = Fin (a * b)"
| "fmul _ _ = NaN"

datatype ndarray =
    Arr0 pyfloat
  | Arr1 "pyfloat list"
  | Arr2 "pyfloat list list"
  | ArrN nat

datatype py_error =
    IndexError
  | AttributeError
  | TypeError
  | ValueError
  | RuntimeError
  | FileNotFoundError
  | NotADirectoryError
  | OSError

text \<open>
  A netCDF variable carries its \<^verbatim>\<open>units\<close> attribute (absent for some variables) and
  its data; a dataset has its dimension names and its variables by name.
\<close>

record ncvar =
  units :: "string option"
  vals :: ndarray

record dataset =
  dimensions :: "string list"
  variables :: "string \<rightharpoonup> ncvar"

text \<open>
  A timestamp is a point of the proleptic Gregorian time line in seconds, day ordinal 1
  being 0001-01-01 as in Python's \<^verbatim>\<open>datetime\<close>; it is idealised as a real (Python
  rounds a \<^verbatim>\<open>timedelta\<close> to microseconds and bounds the year by 9999, which the
  model leaves out).
\<close>

type_synonym instant = real

text \<open>
  \<^verbatim>\<open>pd.DataFrame({var: output})\<close> is a single named column. A numeric column holds
  \<open>pyfloat\<close>s, the \<^verbatim>\<open>datetime\<close> column holds timestamps, \<open>None\<close> standing for pandas'
  \<^verbatim>\<open>NaT\<close>. A table is the list of its named columns in order.
\<close>

datatype column = NumCol "pyfloat list" | DtCol "instant option list"

type_synonym frame = "string \<times> column"

type_synonym table = "frame list"

definition vars_to_read :: "string list" where
  "vars_to_read = [''Time'', ''GGALT'', ''LATC'', ''LONC'', ''UIC'', ''VIC'', ''WIC'',
                   ''ATX'', ''PSFC'', ''EWX'']"

section \<open>Time reconstruction: \<^verbatim>\<open>sfm_to_datetime\<close>\<close>

text \<open>\<^verbatim>\<open>timedelta(seconds=float(s))\<close> raises \<^verbatim>\<open>ValueError\<close> on a NaN.\<close>

fun timedelta_seconds :: "pyfloat \<Rightarrow> py_error + real" where
  "timedelta_seconds NaN = Inl ValueError"
| "timedelta_seconds (Fin r) = Inr r"

fun timedeltas :: "pyfloat list \<Rightarrow> py_error + real list" where
  "timedeltas [] = Inr []"
| "timedeltas (s # ss) =
     (case timedelta_seconds s of
        Inl e \<Rightarrow> Inl e
      | Inr d \<Rightarrow> (case timedeltas ss of Inl e \<Rightarrow> Inl e | Inr ds \<Rightarrow> Inr (d # ds)))"

text \<open>
  \<^verbatim>\<open>str.split(' ')\<close> with an explicit separator cuts at every single space and keeps
  empty pieces.
\<close>

fun split_str :: "char \<Rightarrow> string \<Rightarrow> string list" where
  "split_str c [] = [[]]"
| "split_str c (x # xs) =
     (if x = c then [] # split_str c xs
      else (case split_str c xs of
              [] \<Rightarrow> [[x]]
            | w # ws \<Rightarrow> (x # w) # ws))"

text \<open>Python's calendar arithmetic (\<^verbatim>\<open>_is_leap\<close>, \<^verbatim>\<open>_days_in_month\<close>, \<^verbatim>\<open>_ymd2ord\<close>).\<close>

definition is_leap :: "nat \<Rightarrow> bool" where
  "is_leap y = (y mod 4 = 0 \<and> (y mod 100 \<noteq> 0 \<or> y mod 400 = 0))"

definition days_in_month :: "nat \<Rightarrow> nat \<Rightarrow> nat" where
  "days_in_month y m =
     (if m = 2 \<and> is_leap y then 29
      else [0, 31, 28, 31, 30, 31, 30, 31, 31, 30, 31, 30, 31] ! m)"

definition days_before_year :: "nat \<Rightarrow> nat" where
  "days_before_year y =
     (y - 1) * 365 + (y - 1) div 4 - (y - 1) div 100 + (y - 1) div 400"

definition days_before_month :: "nat \<Rightarrow> nat \<Rightarrow> nat" where
  "days_before_month y m =
     [0, 0, 31, 59, 90, 120, 151, 181, 212, 243, 273, 304, 334] ! m
       + (if 2 < m \<and> is_leap y then 1 else 0)"

definition ymd2ord :: "nat \<Rightarrow> nat \<Rightarrow> nat \<Rightarrow> nat" where
  "ymd2ord y m d = days_before_year y + days_before_month y m + d"

definition valid_date :: "nat \<Rightarrow> nat \<Rightarrow> nat \<Rightarrow> bool" where
  "valid_date y m d =
     (1 \<le> y \<and> y \<le> 9999 \<and> 1 \<le> m \<and> m \<le> 12 \<and> 1 \<le> d \<and> d \<le> days_in_month y m)"

text \<open>The instant of 00:00:00 UTC on a calendar date.\<close>

definition utc_midnight :: "nat \<Rightarrow> nat \<Rightarrow> nat \<Rightarrow> instant" where
  "utc_midnight y m d = 86400 * real (ymd2ord y m d)"

definition digit_val :: "char \<Rightarrow> nat option" where
  "digit_val c =
     (let code = (of_char c :: nat)
      in if 48 \<le> code \<and> code \<le> 57 then Some (code - 48) else None)"

fun digits_val :: "string \<Rightarrow> nat \<Rightarrow> nat option" where
  "digits_val [] acc = Some acc"
| "digits_val (c # cs) acc =
     (case digit_val c of None \<Rightarrow> None | Some v \<Rightarrow> digits_val cs (10 * acc + v))"

text \<open>
  \<^verbatim>\<open>datetime.fromisoformat\<close> is only ever called on a string that ends in the fixed
  text \<^verbatim>\<open>T00:00:00+0000\<close>, so only that time part is modelled, and of the date
  spellings only the extended calendar form \<^verbatim>\<open>YYYY-MM-DD\<close>; anything else is taken as
  the \<^verbatim>\<open>ValueError\<close> of an invalid string (Python 3.11 and later also read the basic
  and the week-date spellings, which the model does not cover). The result is timezone
  aware with offset zero, i.e. the instant of UTC midnight.
\<close>

definition fromisoformat :: "string \<Rightarrow> py_error + instant" where
  "fromisoformat s =
     (if length s = 24 \<and> drop 10 s = ''T00:00:00+0000''
         \<and> s ! 4 = CHR ''-'' \<and> s ! 7 = CHR ''-''
      then (case (digits_val (take 4 s) 0, digits_val (take 2 (drop 5 s)) 0,
                  digits_val (take 2 (drop 8 s)) 0) of
              (Some y, Some m, Some d) \<Rightarrow>
                if valid_date y m d then Inr (utc_midnight y m d) else Inl ValueError
            | _ \<Rightarrow> Inl ValueError)
      else Inl ValueError)"

definition sfm_to_datetime :: "pyfloat list \<Rightarrow> string \<Rightarrow> py_error + instant list" where
  "sfm_to_datetime sfm tunits =
     (case timedeltas sfm of
        Inl e \<Rightarrow> Inl e
      | Inr deltas \<Rightarrow>
          let tunits_split = split_str CHR '' '' tunits in
          if length tunits_split \<le> 2 then Inl IndexError
          else
            let t0_iso_str = take 10 (tunits_split ! 2) @ ''T00:00:00+0000'' in
            (case fromisoformat t0_iso_str of
               Inl e \<Rightarrow> Inl e
             | Inr t0_dt \<Rightarrow> Inr (map (\<lambda>delta. t0_dt + delta) deltas)))"

section \<open>The 25 Hz reader: \<^verbatim>\<open>read_flight_nc_25hz\<close>\<close>

definition hz :: nat where
  "hz = 25"

text \<open>\<^verbatim>\<open>sub_seconds = np.arange(0,25,1)/25.\<close>\<close>

definition sub_seconds :: "pyfloat list" where
  "sub_seconds = map (\<lambda>k. Fin (real k / 25)) [0..<25]"

text \<open>
  \<^verbatim>\<open>time_25hz[:,i] = time + inc\<close>: every row \<open>j\<close> of the grid gets \<open>time[j] + inc\<close> in
  column \<open>i\<close>. The grid has one row per element of \<open>time\<close>.
\<close>

definition assign_col :: "pyfloat list list \<Rightarrow> nat \<Rightarrow> pyfloat list \<Rightarrow> pyfloat list list" where
  "assign_col grid i col = map (\<lambda>(row, v). row[i := v]) (zip grid col)"

fun time_cols ::
  "pyfloat list \<Rightarrow> (nat \<times> pyfloat) list \<Rightarrow> pyfloat list list \<Rightarrow> pyfloat list list" where
  "time_cols time [] time_25hz = time_25hz"
| "time_cols time ((i, inc) # rest) time_25hz =
     time_cols time rest (assign_col time_25hz i (map (\<lambda>t. fadd t inc) time))"

text \<open>
  \<^verbatim>\<open>output_2d[i,:] = output_1d[i] + sub_seconds*(output_1d[i+1]-output_1d[i])\<close> for
  \<open>i\<close> in \<^verbatim>\<open>range(len(output_1d)-1)\<close>. For an empty \<open>output_1d\<close> Python's range is
  \<^verbatim>\<open>range(-1)\<close>, which is empty, as is \<open>[0..<0 - 1]\<close> on naturals.
\<close>

definition interp_row :: "pyfloat list \<Rightarrow> nat \<Rightarrow> pyfloat list" where
  "interp_row output_1d i =
     map (\<lambda>s. fadd (output_1d ! i) (fmul s (fsub (output_1d ! (i + 1)) (output_1d ! i))))
       sub_seconds"

fun interp_rows :: "pyfloat list \<Rightarrow> nat list \<Rightarrow> pyfloat list list \<Rightarrow> pyfloat list list" where
  "interp_rows output_1d [] output_2d = output_2d"
| "interp_rows output_1d (i # rest) output_2d =
     interp_rows output_1d rest (output_2d[i := interp_row output_1d i])"

text \<open>
  The body of the \<^verbatim>\<open>try\<close> for one variable: it returns \<open>data\<close> after the appends it
  performed and the exception it raised, if any.

  \<^item> \<^verbatim>\<open>nc[var]\<close> raises \<^verbatim>\<open>IndexError\<close> for a name the file does not have, and
    \<^verbatim>\<open>getattr\<close> raises \<^verbatim>\<open>AttributeError\<close> for a missing \<^verbatim>\<open>units\<close>.
  \<^item> For \<^verbatim>\<open>Time\<close>, \<^verbatim>\<open>len\<close> of a rank-0 array raises \<^verbatim>\<open>TypeError\<close>, and a value of
    rank 2 or more does not fit the column it is assigned to (numpy's \<^verbatim>\<open>ValueError\<close>;
    the corner of a value all of whose dimensions are 1, which numpy squeezes, is not
    modelled).
  \<^item> The \<^verbatim>\<open>Time\<close> column is appended before \<^verbatim>\<open>sfm_to_datetime\<close> runs, so it stays
    when that call raises.
  \<^item> For the other variables the \<open>case\<close> is the \<^verbatim>\<open>ndims == 2\<close>, \<^verbatim>\<open>ndims == 1\<close>,
    \<^verbatim>\<open>else\<close> chain.
\<close>

definition var_25hz :: "dataset \<Rightarrow> string \<Rightarrow> frame list \<Rightarrow> frame list \<times> py_error option" where
  "var_25hz nc var data =
     (case variables nc var of
        None \<Rightarrow> (data, Some IndexError)
      | Some v \<Rightarrow>
          if var = ''Time'' then
            (case units v of
               None \<Rightarrow> (data, Some AttributeError)
             | Some tunits \<Rightarrow>
                 (case vals v of
                    Arr0 x \<Rightarrow> (data, Some TypeError)
                  | Arr1 time \<Rightarrow>
                      let time_25hz = time_cols time (enumerate 0 sub_seconds)
                                        (replicate (length time) (replicate hz (Fin 0)));
                          output = concat time_25hz;
                          data1 = data @ [(var, NumCol output)]
                      in (case sfm_to_datetime output tunits of
                            Inl e \<Rightarrow> (data1, Some e)
                          | Inr dt_list \<Rightarrow>
                              (data1 @ [(''datetime'', DtCol (map Some dt_list))], None))
                  | Arr2 rows \<Rightarrow> (data, Some ValueError)
                  | ArrN k \<Rightarrow> (data, Some ValueError)))
          else
            (case vals v of
               Arr2 rows \<Rightarrow> (data @ [(var, NumCol (concat rows))], None)
             | Arr1 output_1d \<Rightarrow>
                 let output_2d = interp_rows output_1d [0..<length output_1d - 1]
                                   (replicate (length output_1d) (replicate hz NaN));
                     output = concat output_2d
                 in (data @ [(var, NumCol output)], None)
             | Arr0 x \<Rightarrow> (data, Some RuntimeError)
             | ArrN k \<Rightarrow> (data, Some RuntimeError)))"

text \<open>The loop over \<open>read_vars\<close>; \<^verbatim>\<open>except Exception: pass\<close> drops the exception.\<close>

fun loop_25hz :: "dataset \<Rightarrow> string list \<Rightarrow> frame list \<Rightarrow> frame list" where
  "loop_25hz nc [] data = data"
| "loop_25hz nc (var # rest) data = loop_25hz nc rest (fst (var_25hz nc var data))"

text \<open>
  \<^verbatim>\<open>pd.concat(data, axis=1)\<close> raises \<^verbatim>\<open>ValueError\<close> (no objects to concatenate) on an
  empty list. Otherwise the frames, each with the default index \<open>0..n-1\<close>, are joined on
  the union of their indexes: a shorter column is filled up with missing values.
\<close>

fun col_len :: "column \<Rightarrow> nat" where
  "col_len (NumCol xs) = length xs"
| "col_len (DtCol ds) = length ds"

fun pad_col :: "nat \<Rightarrow> column \<Rightarrow> column" where
  "pad_col n (NumCol xs) = NumCol (xs @ replicate (n - length xs) NaN)"
| "pad_col n (DtCol ds) = DtCol (ds @ replicate (n - length ds) None)"

definition pd_concat :: "frame list \<Rightarrow> py_error + table" where
  "pd_concat data =
     (if data = [] then Inl ValueError
      else
        let n = foldr max (map (\<lambda>f. col_len (snd f)) data) 0
        in Inr (map (\<lambda>f. (fst f, pad_col n (snd f))) data))"

definition read_flight_nc_25hz :: "dataset \<Rightarrow> string list \<Rightarrow> py_error + table" where
  "read_flight_nc_25hz nc read_vars = pd_concat (loop_25hz nc read_vars [])"

section \<open>The 1 Hz reader: \<^verbatim>\<open>read_flight_nc_1hz\<close>\<close>

text \<open>
  \<^verbatim>\<open>pd.DataFrame({var: arr})\<close> takes a one-dimensional array; for a rank-0 array (all
  scalar values and no index) and for two or more dimensions it raises \<^verbatim>\<open>ValueError\<close>.
\<close>

fun new_frame :: "string \<Rightarrow> ndarray \<Rightarrow> py_error + frame" where
  "new_frame var (Arr1 xs) = Inr (var, NumCol xs)"
| "new_frame var (Arr0 x) = Inl ValueError"
| "new_frame var (Arr2 rows) = Inl ValueError"
| "new_frame var (ArrN k) = Inl ValueError"

text \<open>
  The body of the \<^verbatim>\<open>try\<close> for one variable, as for the 25 Hz reader. For \<^verbatim>\<open>Time\<close>
  the column is built first (the constructor's \<^verbatim>\<open>ValueError\<close> for an array that is not
  one-dimensional) and appended before \<^verbatim>\<open>sfm_to_datetime\<close> runs.
\<close>

definition var_1hz :: "dataset \<Rightarrow> string \<Rightarrow> frame list \<Rightarrow> frame list \<times> py_error option" where
  "var_1hz nc var data =
     (case variables nc var of
        None \<Rightarrow> (data, Some IndexError)
      | Some v \<Rightarrow>
          if var = ''Time'' then
            (case units v of
               None \<Rightarrow> (data, Some AttributeError)
             | Some tunits \<Rightarrow>
                 (case vals v of
                    Arr1 time \<Rightarrow>
                      let data1 = data @ [(var, NumCol time)]
                      in (case sfm_to_datetime time tunits of
                            Inl e \<Rightarrow> (data1, Some e)
                          | Inr dt_list \<Rightarrow>
                              (data1 @ [(''datetime'', DtCol (map Some dt_list))], None))
                  | Arr0 x \<Rightarrow> (data, Some ValueError)
                  | Arr2 rows \<Rightarrow> (data, Some ValueError)
                  | ArrN k \<Rightarrow> (data, Some ValueError)))
          else
            (case new_frame var (vals v) of
               Inl e \<Rightarrow> (data, Some e)
             | Inr f \<Rightarrow> (data @ [f], None)))"

fun loop_1hz :: "dataset \<Rightarrow> string list \<Rightarrow> frame list \<Rightarrow> frame list" where
  "loop_1hz nc [] data = data"
| "loop_1hz nc (var # rest) data = loop_1hz nc rest (fst (var_1hz nc var data))"

definition read_flight_nc_1hz :: "dataset \<Rightarrow> string list \<Rightarrow> py_error + table" where
  "read_flight_nc_1hz nc read_vars = pd_concat (loop_1hz nc read_vars [])"

section \<open>Rate dispatch, files and flight records\<close>

definition read_flight_nc :: "dataset \<Rightarrow> string list \<Rightarrow> py_error + table" where
  "read_flight_nc nc read_vars =
     (let dim_names = dimensions nc in
      if ''sps25'' \<in> set dim_names then read_flight_nc_25hz nc read_vars
      else read_flight_nc_1hz nc read_vars)"

text \<open>
  The file system is a map from path strings to what is there: a netCDF file, another
  regular file, or a directory with the names \<^verbatim>\<open>os.listdir\<close> returns for it.
  \<^verbatim>\<open>netCDF4.Dataset\<close> raises \<^verbatim>\<open>OSError\<close> on a file that is not netCDF.
\<close>

datatype node = NcFile dataset | OtherFile | Dir "string list"

type_synonym filesystem = "string \<rightharpoonup> node"

fun is_file :: "filesystem \<Rightarrow> string \<Rightarrow> bool" where
  "is_file fs p =
     (case fs p of
        Some (NcFile d) \<Rightarrow> True
      | Some OtherFile \<Rightarrow> True
      | Some (Dir names) \<Rightarrow> False
      | None \<Rightarrow> False)"

fun netcdf_Dataset :: "filesystem \<Rightarrow> string \<Rightarrow> py_error + dataset" where
  "netcdf_Dataset fs p =
     (case fs p of
        Some (NcFile d) \<Rightarrow> Inr d
      | Some OtherFile \<Rightarrow> Inl OSError
      | Some (Dir names) \<Rightarrow> Inl OSError
      | None \<Rightarrow> Inl FileNotFoundError)"

definition open_flight_nc :: "filesystem \<Rightarrow> string \<Rightarrow> py_error + dataset" where
  "open_flight_nc fs file_path =
     (if \<not> is_file fs file_path then Inl FileNotFoundError
      else netcdf_Dataset fs file_path)"

text \<open>
  \<^verbatim>\<open>os.listdir\<close> raises \<^verbatim>\<open>FileNotFoundError\<close> for a path that does not exist and
  \<^verbatim>\<open>NotADirectoryError\<close> for a file.
\<close>

fun listdir :: "filesystem \<Rightarrow> string \<Rightarrow> py_error + string list" where
  "listdir fs p =
     (case fs p of
        Some (Dir names) \<Rightarrow> Inr names
      | Some (NcFile d) \<Rightarrow> Inl NotADirectoryError
      | Some OtherFile \<Rightarrow> Inl NotADirectoryError
      | None \<Rightarrow> Inl FileNotFoundError)"

text \<open>
  \<^verbatim>\<open>fnmatch(fname, "*.nc")\<close> on a case-sensitive system: the name ends in \<^verbatim>\<open>.nc\<close>.
  \<^verbatim>\<open>sorted\<close> orders strings lexicographically by character code, which is the order of
  \<open>string\<close> here.
\<close>

definition endswith :: "string \<Rightarrow> string \<Rightarrow> bool" where
  "endswith s suffix =
     (length suffix \<le> length s \<and> drop (length s - length suffix) s = suffix)"

definition find_flight_fnames :: "filesystem \<Rightarrow> string \<Rightarrow> py_error + string list" where
  "find_flight_fnames fs dir_path =
     (case listdir fs dir_path of
        Inl e \<Rightarrow> Inl e
      | Inr names \<Rightarrow> Inr (sort (filter (\<lambda>fname. endswith fname ''.nc'') names)))"

text \<open>
  \<^verbatim>\<open>read_all_flights\<close>. A Python dict keeps insertion order and an assignment to a key
  it has replaces the value in place: an association list under \<open>AList.update\<close>. The
  \<^verbatim>\<open>print(campaign)\<close> of the outer loop is not modelled.
\<close>

fun flights_loop ::
  "filesystem \<Rightarrow> string \<Rightarrow> string list \<Rightarrow> string list \<Rightarrow> (string \<times> table) list
     \<Rightarrow> py_error + (string \<times> table) list" where
  "flights_loop fs campaign_dir read_vars [] flight_dict = Inr flight_dict"
| "flights_loop fs campaign_dir read_vars (fname # rest) flight_dict =
     (case open_flight_nc fs (campaign_dir @ ''/'' @ fname) of
        Inl e \<Rightarrow> Inl e
      | Inr flight_nc \<Rightarrow>
          (case read_flight_nc flight_nc read_vars of
             Inl e \<Rightarrow> Inl e
           | Inr df \<Rightarrow>
               flights_loop fs campaign_dir read_vars rest
                 (AList.update fname df flight_dict)))"

fun campaigns_loop ::
  "filesystem \<Rightarrow> string \<Rightarrow> string list \<Rightarrow> string list
     \<Rightarrow> (string \<times> (string \<times> table) list) list
     \<Rightarrow> py_error + (string \<times> (string \<times> table) list) list" where
  "campaigns_loop fs data_dir read_vars [] all_campaign_nc = Inr all_campaign_nc"
| "campaigns_loop fs data_dir read_vars (campaign # rest) all_campaign_nc =
     (let campaign_dir = data_dir @ ''/'' @ campaign @ ''/lrt'' in
      case find_flight_fnames fs campaign_dir of
        Inl e \<Rightarrow> Inl e
      | Inr flight_fnames \<Rightarrow>
          (case flights_loop fs campaign_dir read_vars flight_fnames [] of
             Inl e \<Rightarrow> Inl e
           | Inr flight_dict \<Rightarrow>
               campaigns_loop fs data_dir read_vars rest
                 (AList.update campaign flight_dict all_campaign_nc)))"

definition read_all_flights ::
  "filesystem \<Rightarrow> string \<Rightarrow> string list \<Rightarrow> string list
     \<Rightarrow> py_error + (string \<times> (string \<times> table) list) list" where
  "read_all_flights fs data_dir field_campaigns read_vars =
     campaigns_loop fs data_dir read_vars field_campaigns []"

text \<open>
  The class \<^verbatim>\<open>flight_obj\<close>: the record holds the attributes \<^verbatim>\<open>__init__\<close> assigns, and
  the constructor returns the record or the exception that ended it.
\<close>

record flight =
  file_path :: string
  read_vars_attempted :: "string list"
  nc :: dataset
  df :: table
  rate :: string
  read_vars :: "string list"

definition flight_obj :: "filesystem \<Rightarrow> string \<Rightarrow> string list \<Rightarrow> py_error + flight" where
  "flight_obj fs path requested =
     (if is_file fs path then
        (case netcdf_Dataset fs path of
           Inl e \<Rightarrow> Inl e
         | Inr handle \<Rightarrow>
             let dim_names = dimensions handle in
             if ''sps25'' \<in> set dim_names then
               (case read_flight_nc_25hz handle requested of
                  Inl e \<Rightarrow> Inl e
                | Inr tbl \<Rightarrow>
                    Inr \<lparr>file_path = path, read_vars_attempted = requested, nc = handle,
                         df = tbl, rate = ''25Hz'', read_vars = map fst tbl\<rparr>)
             else
               (case read_flight_nc_1hz handle requested of
                  Inl e \<Rightarrow> Inl e
                | Inr tbl \<Rightarrow>
                    Inr \<lparr>file_path = path, read_vars_attempted = requested, nc = handle,
                         df = tbl, rate = ''1Hz'', read_vars = map fst tbl\<rparr>))
      else Inl FileNotFoundError)"

section \<open>The form of a units string\<close>

text \<open>
  The spelling \<^verbatim>\<open>YYYY-MM-DD\<close> of a calendar date, zero padded, as it stands in a units
  string \<^verbatim>\<open>seconds since YYYY-MM-DD hh:mm:ss +zzzz\<close>. It is used to state what
  \<^verbatim>\<open>sfm_to_datetime\<close> returns on such strings; no function of the module calls it.
\<close>

definition digit_char :: "nat \<Rightarrow> char" where
  "digit_char n = ''0123456789'' ! n"

definition iso_date :: "nat \<Rightarrow> nat \<Rightarrow> nat \<Rightarrow> string" where
  "iso_date y m d =
     [digit_char (y div 1000), digit_char (y div 100 mod 10), digit_char (y div 10 mod 10),
      digit_char (y mod 10), CHR ''-'', digit_char (m div 10), digit_char (m mod 10),
      CHR ''-'', digit_char (d div 10), digit_char (d mod 10)]"

section \<open>Example inputs\<close>

text \<open>
  A 25 Hz file with two seconds of data: the time axis, a variable stored once per
  second and a variable stored 25 times per second. The 1 Hz file has the same time
  axis and no \<^verbatim>\<open>sps25\<close> dimension.
\<close>

definition time_var :: ncvar where
  "time_var = \<lparr>units = Some ''seconds since 2018-01-20 00:00:00 +0000'',
               vals = Arr1 [Fin 10, Fin 11]\<rparr>"

definition ggalt_var :: ncvar where
  "ggalt_var = \<lparr>units = Some ''m'', vals = Arr1 [Fin 100, Fin 200]\<rparr>"

definition uic_var :: ncvar where
  "uic_var = \<lparr>units = Some ''m/s'', vals = Arr2 [replicate 25 (Fin 5), replicate 25 (Fin 7)]\<rparr>"

definition example_25hz :: dataset where
  "example_25hz =
     \<lparr>dimensions = [''Time'', ''sps25''],
      variables = [''Time'' \<mapsto> time_var, ''GGALT'' \<mapsto> ggalt_var, ''UIC'' \<mapsto> uic_var]\<rparr>"

definition example_1hz :: dataset where
  "example_1hz =
     \<lparr>dimensions = [''Time''],
      variables = [''Time'' \<mapsto> time_var, ''GGALT'' \<mapsto> ggalt_var]\<rparr>"



definition example_fs :: filesystem where
  "example_fs =
     [''data/rf01.nc'' \<mapsto> NcFile example_25hz,
      ''data/rf02.nc'' \<mapsto> NcFile example_1hz,
      ''root/EMPTY/lrt'' \<mapsto> Dir [''notes.txt'', ''README''],
      ''root/ONE/lrt'' \<mapsto> Dir [''rf02.nc'', ''plot.png'', ''rf01.nc''],
      ''root/ONE/lrt/rf01.nc'' \<mapsto> NcFile example_25hz,
      ''root/ONE/lrt/rf02.nc'' \<mapsto> NcFile example_1hz]"

section \<open>Lists, grids and columns\<close>

lemma concat_uniform_length:
  "(\<forall>r\<in>set rows. length r = n) \<Longrightarrow> length (concat rows) = length rows * n"
  by (induction rows) auto

lemma concat_uniform_nth:
  "(\<forall>r\<in>set rows. length r = n) \<Longrightarrow> i < length rows \<Longrightarrow> k < n
     \<Longrightarrow> concat rows ! (i * n + k) = rows ! i ! k"
proof (induction rows arbitrary: i)
  case Nil
  then show ?case by simp
next
  case (Cons r rows)
  show ?case
  proof (cases i)
    case 0
    with Cons.prems show ?thesis by (simp add: nth_append)
  next
    case (Suc j)
    with Cons.prems have "concat rows ! (j * n + k) = rows ! j ! k"
      by (intro Cons.IH) auto
    with Suc Cons.prems show ?thesis by (simp add: nth_append add.assoc)
  qed
qed






lemma pd_concat_single_num:
  "pd_concat [(name, NumCol col)] = Inr [(name, NumCol col)]"
  by (simp add: pd_concat_def)









section \<open>Parsing the units string\<close>

lemma below_ten: "n < 10 \<Longrightarrow> n \<in> {0, 1, 2, 3, 4, 5, 6, 7, 8, 9 :: nat}"
  by simp arith

lemma digit_val_digit_char: "n < 10 \<Longrightarrow> digit_val (digit_char n) = Some n"
  by (drule below_ten) (auto simp: digit_val_def digit_char_def)

lemma digit_char_not_space: "n < 10 \<Longrightarrow> digit_char n \<noteq> CHR '' ''"
  by (drule below_ten) (auto simp: digit_char_def)

lemma days_in_month_le: "m \<le> 12 \<Longrightarrow> days_in_month y m \<le> 31"
proof -
  assume "m \<le> 12"
  then have "m \<in> {0, 1, 2, 3, 4, 5, 6, 7, 8, 9, 10, 11, 12}"
    by simp arith
  then show ?thesis by (auto simp: days_in_month_def)
qed

lemma split_str_word:
  "c \<notin> set w \<Longrightarrow> split_str c (w @ c # r) = w # split_str c r"
  by (induction w) (auto split: list.splits)

lemma timedeltas_Fin: "timedeltas (map Fin rs) = Inr rs"
  by (induction rs) auto

lemma valid_date_digits:
  assumes "valid_date y m d"
  shows "y div 1000 < 10" and "m div 10 < 10" and "d div 10 < 10"
proof -
  from assms have y: "y \<le> 9999" and m: "m \<le> 12" and d: "d \<le> days_in_month y m"
    by (simp_all add: valid_date_def)
  from y show "y div 1000 < 10" by simp
  from m show "m div 10 < 10" by simp
  from d days_in_month_le [OF m, of y] show "d div 10 < 10" by simp
qed

lemma space_notin_iso_date:
  assumes "valid_date y m d"
  shows "CHR '' '' \<notin> set (iso_date y m d)"
  using valid_date_digits [OF assms]
  by (simp add: iso_date_def digit_char_not_space [THEN not_sym])


lemma four_digits:
  "1000 * (y div 1000) + 100 * (y div 100 mod 10) + 10 * (y div 10 mod 10) + y mod 10 = (y::nat)"
proof -
  have k: "y div 1000 = y div 100 div 10" "y div 100 = y div 10 div 10"
    by (simp_all add: div_mult2_eq [symmetric])
  have a: "y div 100 = 10 * (y div 1000) + y div 100 mod 10"
    unfolding k(1) by simp
  have b: "y div 10 = 10 * (y div 100) + y div 10 mod 10"
    unfolding k(2) by simp
  have c: "y = 10 * (y div 10) + y mod 10" by simp
  from a b c show ?thesis by linarith
qed


lemma digits_val_four:
  assumes "a < 10" "b < 10" "c < 10" "e < 10"
  shows "digits_val [digit_char a, digit_char b, digit_char c, digit_char e] 0
           = Some (1000 * a + 100 * b + 10 * c + e)"
  using assms by (simp add: digit_val_digit_char)

lemma digits_val_two:
  assumes "a < 10" "b < 10"
  shows "digits_val [digit_char a, digit_char b] 0 = Some (10 * a + b)"
  using assms by (simp add: digit_val_digit_char)

lemma fromisoformat_iso_date:
  assumes "valid_date y m d"
  shows "fromisoformat (iso_date y m d @ ''T00:00:00+0000'') = Inr (utc_midnight y m d)"
proof -
  note dg = valid_date_digits [OF assms]
  have "take 4 (iso_date y m d @ ''T00:00:00+0000'')
          = [digit_char (y div 1000), digit_char (y div 100 mod 10),
             digit_char (y div 10 mod 10), digit_char (y mod 10)]"
    by (simp add: iso_date_def)
  then have y: "digits_val (take 4 (iso_date y m d @ ''T00:00:00+0000'')) 0 = Some y"
    using dg(1) by (simp only: digits_val_four four_digits)
  have "take 2 (drop 5 (iso_date y m d @ ''T00:00:00+0000''))
          = [digit_char (m div 10), digit_char (m mod 10)]"
    by (simp add: iso_date_def)
  then have m: "digits_val (take 2 (drop 5 (iso_date y m d @ ''T00:00:00+0000''))) 0 = Some m"
    using dg(2) by (simp add: digits_val_two del: digits_val.simps)
  have "take 2 (drop 8 (iso_date y m d @ ''T00:00:00+0000''))
          = [digit_char (d div 10), digit_char (d mod 10)]"
    by (simp add: iso_date_def)
  then have d: "digits_val (take 2 (drop 8 (iso_date y m d @ ''T00:00:00+0000''))) 0 = Some d"
    using dg(3) by (simp add: digits_val_two del: digits_val.simps)
  have shape: "length (iso_date y m d @ ''T00:00:00+0000'') = 24"
    "drop 10 (iso_date y m d @ ''T00:00:00+0000'') = ''T00:00:00+0000''"
    "(iso_date y m d @ ''T00:00:00+0000'') ! 4 = CHR ''-''"
    "(iso_date y m d @ ''T00:00:00+0000'') ! 7 = CHR ''-''"
    by (simp_all add: iso_date_def)
  show ?thesis
    unfolding fromisoformat_def using assms by (simp only: shape y m d) simp
qed

lemma split_units:
  assumes "CHR '' '' \<notin> set date"
  shows "split_str CHR '' '' (''seconds since '' @ date @ '' '' @ rest)
           = ''seconds'' # ''since'' # date # split_str CHR '' '' rest"
proof -
  have "''seconds since '' @ date @ '' '' @ rest
          = ''seconds'' @ CHR '' '' # (''since'' @ CHR '' '' # (date @ CHR '' '' # rest))"
    by simp
  then show ?thesis
    using assms by (simp only: split_str_word) (simp add: split_str_word)
qed

lemma sfm_to_datetime_iso:
  assumes "valid_date y m d"
  shows "sfm_to_datetime (map Fin offsets)
           (''seconds since '' @ iso_date y m d @ '' '' @ tod @ '' '' @ tz)
         = Inr (map (\<lambda>s. utc_midnight y m d + s) offsets)"
proof -
  have len: "length (iso_date y m d) = 10" by (simp add: iso_date_def)
  have sp: "split_str CHR '' '' (''seconds since '' @ iso_date y m d @ '' '' @ tod @ '' '' @ tz)
          = ''seconds'' # ''since'' # iso_date y m d # split_str CHR '' '' (tod @ '' '' @ tz)"
    by (rule split_units [OF space_notin_iso_date [OF assms]])
  show ?thesis
    unfolding sfm_to_datetime_def timedeltas_Fin sp
    by (simp add: len fromisoformat_iso_date [OF assms])
qed

section \<open>The loops of the readers\<close>

lemma var_1hz_appends: "fst (var_1hz ds v data) = data @ fst (var_1hz ds v [])"
  by (cases "vals (the (variables ds v))")
     (auto simp: var_1hz_def Let_def split: option.splits sum.splits)

lemma var_25hz_appends: "fst (var_25hz ds v data) = data @ fst (var_25hz ds v [])"
  by (cases "vals (the (variables ds v))")
     (auto simp: var_25hz_def Let_def split: option.splits sum.splits)

lemma loop_1hz_concat:
  "loop_1hz ds vs data = data @ concat (map (\<lambda>v. fst (var_1hz ds v [])) vs)"
proof (induction vs arbitrary: data)
  case Nil
  show ?case by simp
next
  case (Cons v vs)
  have "loop_1hz ds (v # vs) data = loop_1hz ds vs (fst (var_1hz ds v data))"
    by simp
  also have "\<dots> = fst (var_1hz ds v data) @ concat (map (\<lambda>v. fst (var_1hz ds v [])) vs)"
    by (rule Cons.IH)
  also have "\<dots> = data @ concat (map (\<lambda>v. fst (var_1hz ds v [])) (v # vs))"
    by (subst var_1hz_appends) simp
  finally show ?case .
qed

lemma loop_25hz_concat:
  "loop_25hz ds vs data = data @ concat (map (\<lambda>v. fst (var_25hz ds v [])) vs)"
proof (induction vs arbitrary: data)
  case Nil
  show ?case by simp
next
  case (Cons v vs)
  have "loop_25hz ds (v # vs) data = loop_25hz ds vs (fst (var_25hz ds v data))"
    by simp
  also have "\<dots> = fst (var_25hz ds v data) @ concat (map (\<lambda>v. fst (var_25hz ds v [])) vs)"
    by (rule Cons.IH)
  also have "\<dots> = data @ concat (map (\<lambda>v. fst (var_25hz ds v [])) (v # vs))"
    by (subst var_25hz_appends) simp
  finally show ?case .
qed

text \<open>
  A variable whose body appends nothing is as good as not requested: the failures of a
  missing name, a missing \<^verbatim>\<open>units\<close> attribute of \<^verbatim>\<open>Time\<close> and an array of the wrong
  rank all end the body before its first append.
\<close>

lemma var_1hz_failure:
  assumes "variables ds v = None
           \<or> (\<exists>x. variables ds v = Some x
                 \<and> ((v = ''Time'' \<and> units x = None) \<or> (\<forall>xs. vals x \<noteq> Arr1 xs)))"
  shows "fst (var_1hz ds v data) = data" and "snd (var_1hz ds v data) \<noteq> None"
  using assms
  by (cases "vals (the (variables ds v))";
      auto simp: var_1hz_def split: option.splits sum.splits)+

lemma var_25hz_failure:
  assumes "variables ds v = None
           \<or> (\<exists>x. variables ds v = Some x
                 \<and> ((v = ''Time'' \<and> (units x = None \<or> (\<forall>xs. vals x \<noteq> Arr1 xs)))
                      \<or> (v \<noteq> ''Time'' \<and> (\<forall>xs. vals x \<noteq> Arr1 xs)
                            \<and> (\<forall>rows. vals x \<noteq> Arr2 rows))))"
  shows "fst (var_25hz ds v data) = data" and "snd (var_25hz ds v data) \<noteq> None"
  using assms
  by (cases "vals (the (variables ds v))";
      auto simp: var_25hz_def split: option.splits sum.splits)+

lemma skipped_variable_1hz:
  "fst (var_1hz ds v []) = []
     \<Longrightarrow> read_flight_nc_1hz ds (vs @ v # ws) = read_flight_nc_1hz ds (vs @ ws)"
  by (simp add: read_flight_nc_1hz_def loop_1hz_concat)

lemma skipped_variable_25hz:
  "fst (var_25hz ds v []) = []
     \<Longrightarrow> read_flight_nc_25hz ds (vs @ v # ws) = read_flight_nc_25hz ds (vs @ ws)"
  by (simp add: read_flight_nc_25hz_def loop_25hz_concat)

lemma var_1hz_names:
  "fst ` set (fst (var_1hz ds v [])) \<subseteq> (if v = ''Time'' then {''Time'', ''datetime''} else {v})"
  by (cases "vals (the (variables ds v))")
     (auto simp: var_1hz_def Let_def split: option.splits sum.splits)

lemma var_25hz_names:
  "fst ` set (fst (var_25hz ds v [])) \<subseteq> (if v = ''Time'' then {''Time'', ''datetime''} else {v})"
  by (cases "vals (the (variables ds v))")
     (auto simp: var_25hz_def Let_def split: option.splits sum.splits)

lemma pd_concat_names: "pd_concat data = Inr tbl \<Longrightarrow> map fst tbl = map fst data"
  by (auto simp: pd_concat_def Let_def comp_def split: if_splits)

lemma pd_concat_error: "pd_concat data = Inl e \<Longrightarrow> e = ValueError \<and> data = []"
  by (auto simp: pd_concat_def Let_def split: if_splits)

lemma reader_1hz_names:
  assumes "read_flight_nc_1hz ds vs = Inr tbl"
  shows "set (map fst tbl) \<subseteq> set vs \<union> {''datetime''}"
    and "''datetime'' \<in> set (map fst tbl) \<Longrightarrow> ''Time'' \<in> set vs \<or> ''datetime'' \<in> set vs"
proof -
  from assms have names: "map fst tbl = map fst (concat (map (\<lambda>v. fst (var_1hz ds v [])) vs))"
    by (simp add: read_flight_nc_1hz_def loop_1hz_concat pd_concat_names)
  have cols: "n \<in> (if v = ''Time'' then {''Time'', ''datetime''} else {v})"
    if "n \<in> fst ` set (fst (var_1hz ds v []))" for n v
    using that var_1hz_names [of ds v] by blast
  show "set (map fst tbl) \<subseteq> set vs \<union> {''datetime''}"
    unfolding names using cols by (fastforce split: if_splits)
  show "''Time'' \<in> set vs \<or> ''datetime'' \<in> set vs" if "''datetime'' \<in> set (map fst tbl)"
    using that unfolding names using cols by (fastforce split: if_splits)
qed

lemma reader_25hz_names:
  assumes "read_flight_nc_25hz ds vs = Inr tbl"
  shows "set (map fst tbl) \<subseteq> set vs \<union> {''datetime''}"
    and "''datetime'' \<in> set (map fst tbl) \<Longrightarrow> ''Time'' \<in> set vs \<or> ''datetime'' \<in> set vs"
proof -
  from assms have names: "map fst tbl = map fst (concat (map (\<lambda>v. fst (var_25hz ds v [])) vs))"
    by (simp add: read_flight_nc_25hz_def loop_25hz_concat pd_concat_names)
  have cols: "n \<in> (if v = ''Time'' then {''Time'', ''datetime''} else {v})"
    if "n \<in> fst ` set (fst (var_25hz ds v []))" for n v
    using that var_25hz_names [of ds v] by blast
  show "set (map fst tbl) \<subseteq> set vs \<union> {''datetime''}"
    unfolding names using cols by (fastforce split: if_splits)
  show "''Time'' \<in> set vs \<or> ''datetime'' \<in> set vs" if "''datetime'' \<in> set (map fst tbl)"
    using that unfolding names using cols by (fastforce split: if_splits)
qed

lemma flight_obj_Inr:
  assumes "flight_obj fs p vs = Inr r"
  shows "\<exists>h tbl. fs p = Some (NcFile h)
           \<and> (if ''sps25'' \<in> set (dimensions h)
                then read_flight_nc_25hz h vs = Inr tbl \<and> rate r = ''25Hz''
                else read_flight_nc_1hz h vs = Inr tbl \<and> rate r = ''1Hz'')
           \<and> file_path r = p \<and> read_vars_attempted r = vs \<and> nc r = h \<and> df r = tbl
           \<and> read_vars r = map fst tbl"
  using assms
  by (auto simp: flight_obj_def Let_def split: if_splits option.splits node.splits sum.splits)




lemma reader_error:
  "read_flight_nc_1hz ds vs = Inl e \<Longrightarrow> e = ValueError"
  "read_flight_nc_25hz ds vs = Inl e \<Longrightarrow> e = ValueError"
  by (auto simp: read_flight_nc_1hz_def read_flight_nc_25hz_def dest: pd_concat_error)

section \<open>The scanner\<close>

lemma update_fresh:
  "k \<notin> fst ` set al \<Longrightarrow> AList.update k v al = al @ [(k, v)]"
  by (induction al) auto

lemma flights_loop_keys:
  "flights_loop fs dir vs fnames acc = Inr fd \<Longrightarrow> distinct fnames
     \<Longrightarrow> set fnames \<inter> fst ` set acc = {}
     \<Longrightarrow> map fst fd = map fst acc @ fnames"
proof (induction fnames arbitrary: acc)
  case Nil
  then show ?case by simp
next
  case (Cons f fnames)
  from Cons.prems(1) obtain h tbl where
    rest: "flights_loop fs dir vs fnames (AList.update f tbl acc) = Inr fd"
    by (auto split: sum.splits)
  from Cons.prems(3) have fresh: "f \<notin> fst ` set acc" by auto
  then have upd: "AList.update f tbl acc = acc @ [(f, tbl)]" by (rule update_fresh)
  from Cons.prems(2,3) have "set fnames \<inter> fst ` set (acc @ [(f, tbl)]) = {}" by auto
  with Cons.IH [of "acc @ [(f, tbl)]"] rest upd Cons.prems(2)
  have "map fst fd = map fst (acc @ [(f, tbl)]) @ fnames" by simp
  then show ?case by simp
qed

section \<open>The example inputs evaluated\<close>

lemma sfm_example:
  "sfm_to_datetime [Fin 10, Fin 11] ''seconds since 2018-01-20 00:00:00 +0000''
     = Inr [utc_midnight 2018 1 20 + 10, utc_midnight 2018 1 20 + 11]"
proof -
  have date: "valid_date 2018 1 20"
    by (simp add: valid_date_def days_in_month_def is_leap_def)
  have spell: "''seconds since '' @ iso_date 2018 1 20 @ '' '' @ ''00:00:00'' @ '' '' @ ''+0000''
                 = ''seconds since 2018-01-20 00:00:00 +0000''"
    by (simp add: iso_date_def digit_char_def)
  from sfm_to_datetime_iso [OF date, of "[10, 11]" "''00:00:00''" "''+0000''"]
  show ?thesis unfolding spell by simp
qed


lemma example_1hz_Time:
  "read_flight_nc_1hz example_1hz [''Time'']
     = Inr [(''Time'', NumCol [Fin 10, Fin 11]),
            (''datetime'', DtCol [Some (utc_midnight 2018 1 20 + 10),
                                  Some (utc_midnight 2018 1 20 + 11)])]"
  by (simp add: read_flight_nc_1hz_def var_1hz_def example_1hz_def time_var_def sfm_example
      pd_concat_def)

lemma example_25hz_UIC:
  "read_flight_nc_25hz example_25hz [''UIC'']
     = Inr [(''UIC'', NumCol (replicate 25 (Fin 5) @ replicate 25 (Fin 7)))]"
  by (simp add: read_flight_nc_25hz_def var_25hz_def example_25hz_def uic_var_def
      pd_concat_def)

lemma example_find:
  "find_flight_fnames example_fs ''root/ONE/lrt'' = Inr [''rf01.nc'', ''rf02.nc'']"
  by (simp add: find_flight_fnames_def example_fs_def endswith_def)

lemma example_flights:
  "\<exists>fd. flights_loop example_fs ''root/ONE/lrt'' [''GGALT''] [''rf01.nc'', ''rf02.nc''] []
          = Inr fd"
proof -
  have a: "\<exists>t. read_flight_nc example_25hz [''GGALT''] = Inr t"
    by (simp add: read_flight_nc_def read_flight_nc_25hz_def var_25hz_def example_25hz_def
        ggalt_var_def pd_concat_def)
  have b: "\<exists>t. read_flight_nc example_1hz [''GGALT''] = Inr t"
    by (simp add: read_flight_nc_def read_flight_nc_1hz_def var_1hz_def example_1hz_def
        ggalt_var_def pd_concat_def)
  from a obtain t1 where t1: "read_flight_nc example_25hz [''GGALT''] = Inr t1" ..
  from b obtain t2 where t2: "read_flight_nc example_1hz [''GGALT''] = Inr t2" ..
  have o1: "open_flight_nc example_fs ''root/ONE/lrt/rf01.nc'' = Inr example_25hz"
    by (simp add: open_flight_nc_def example_fs_def)
  have o2: "open_flight_nc example_fs ''root/ONE/lrt/rf02.nc'' = Inr example_1hz"
    by (simp add: open_flight_nc_def example_fs_def)
  show ?thesis by (simp add: o1 o2 t1 t2)
qed

section \<open>The 25 Hz reader: upsampling and flattening\<close>



text \<open>
  Claim C5. In the 25 Hz reader a variable other than \<^verbatim>\<open>Time\<close> of rank 2 and shape
  \<open>(N, 25)\<close> yields one column of exactly \<open>N * 25\<close> values, the rows one after the other:
  entry \<open>i * 25 + k\<close> is the stored value \<open>rows[i][k]\<close>, unchanged.
\<close>

theorem ravel_2d_native:
  assumes "variables ds var = Some v" and "var \<noteq> ''Time''" and "vals v = Arr2 rows"
    and "\<forall>r\<in>set rows. length r = 25"
  shows "var_25hz ds var data = (data @ [(var, NumCol (concat rows))], None)
           \<and> read_flight_nc_25hz ds [var] = Inr [(var, NumCol (concat rows))]
           \<and> length (concat rows) = length rows * 25
           \<and> (\<forall>i k. i < length rows \<longrightarrow> k < 25 \<longrightarrow>
                 concat rows ! (i * 25 + k) = rows ! i ! k)"
proof -
  have step: "var_25hz ds var data = (data @ [(var, NumCol (concat rows))], None)" for data
    using assms(1-3) by (simp add: var_25hz_def)
  have reader: "read_flight_nc_25hz ds [var] = Inr [(var, NumCol (concat rows))]"
    by (simp add: read_flight_nc_25hz_def step pd_concat_single_num)
  show ?thesis
    using step reader concat_uniform_length [OF assms(4)] concat_uniform_nth [OF assms(4)]
    by blast
qed

theorem ravel_2d_native_witness:
  "var_25hz example_25hz ''UIC'' []
     = ([(''UIC'', NumCol (replicate 25 (Fin 5) @ replicate 25 (Fin 7)))], None)
   \<and> length (replicate 25 (Fin 5) @ replicate 25 (Fin 7) :: pyfloat list) = 50
   \<and> (replicate 25 (Fin 5) @ replicate 25 (Fin 7)) ! (1 * 25 + 3) = Fin 7"
proof -
  have v: "variables example_25hz ''UIC'' = Some uic_var"
    by (simp add: example_25hz_def)
  have ne: "''UIC'' \<noteq> ''Time''" by simp
  have a: "vals uic_var = Arr2 [replicate 25 (Fin 5), replicate 25 (Fin 7)]"
    by (simp add: uic_var_def)
  have u: "\<forall>r\<in>set [replicate 25 (Fin 5), replicate 25 (Fin 7)]. length r = 25"
    by simp
  from ravel_2d_native [OF v ne a u, of "[]"] show ?thesis
    by (simp add: nth_append)
qed



section \<open>Time reconstruction\<close>



section \<open>Rate dispatch\<close>

text \<open>
  Claim C4. \<^verbatim>\<open>read_flight_nc\<close> runs the 25 Hz reader when \<^verbatim>\<open>sps25\<close> is among the
  dimension names of the file and the 1 Hz reader otherwise. A flight record that
  \<^verbatim>\<open>flight_obj\<close> constructs holds the table of the reader chosen by the same test, and
  its rate tag is \<^verbatim>\<open>25Hz\<close> when \<^verbatim>\<open>sps25\<close> is a dimension and \<^verbatim>\<open>1Hz\<close> otherwise.
\<close>

theorem rate_dispatch:
  "read_flight_nc ds vs
     = (if ''sps25'' \<in> set (dimensions ds) then read_flight_nc_25hz ds vs
        else read_flight_nc_1hz ds vs)
   \<and> (\<forall>r. flight_obj fs p vs = Inr r \<longrightarrow>
          rate r = (if ''sps25'' \<in> set (dimensions (nc r)) then ''25Hz'' else ''1Hz'')
          \<and> Inr (df r) = (if ''sps25'' \<in> set (dimensions (nc r))
                           then read_flight_nc_25hz (nc r) vs
                           else read_flight_nc_1hz (nc r) vs)
          \<and> fs p = Some (NcFile (nc r)))"
proof -
  have "rate r = (if ''sps25'' \<in> set (dimensions (nc r)) then ''25Hz'' else ''1Hz'')
          \<and> Inr (df r) = (if ''sps25'' \<in> set (dimensions (nc r))
                           then read_flight_nc_25hz (nc r) vs
                           else read_flight_nc_1hz (nc r) vs)
          \<and> fs p = Some (NcFile (nc r))"
    if "flight_obj fs p vs = Inr r" for r
    using flight_obj_Inr [OF that] by (auto split: if_splits)
  then show ?thesis by (simp add: read_flight_nc_def Let_def)
qed

text \<open>The theorem at the example inputs.\<close>

theorem rate_dispatch_witness:
  "read_flight_nc example_25hz [''UIC''] = read_flight_nc_25hz example_25hz [''UIC'']
   \<and> read_flight_nc example_1hz [''Time''] = read_flight_nc_1hz example_1hz [''Time'']
   \<and> (\<exists>r. flight_obj example_fs ''data/rf01.nc'' [''UIC''] = Inr r \<and> rate r = ''25Hz'')
   \<and> (\<exists>r. flight_obj example_fs ''data/rf02.nc'' [''Time''] = Inr r \<and> rate r = ''1Hz'')"
proof -
  have d25: "''sps25'' \<in> set (dimensions example_25hz)"
    by (simp add: example_25hz_def)
  have d1: "''sps25'' \<notin> set (dimensions example_1hz)"
    by (simp add: example_1hz_def)
  have "\<exists>r. flight_obj example_fs ''data/rf01.nc'' [''UIC''] = Inr r"
    by (simp add: flight_obj_def example_fs_def example_25hz_UIC d25)
  then obtain r1 where r1: "flight_obj example_fs ''data/rf01.nc'' [''UIC''] = Inr r1" ..
  have "\<exists>r. flight_obj example_fs ''data/rf02.nc'' [''Time''] = Inr r"
    by (simp add: flight_obj_def example_fs_def example_1hz_Time d1)
  then obtain r2 where r2: "flight_obj example_fs ''data/rf02.nc'' [''Time''] = Inr r2" ..
  from rate_dispatch [where ds = example_25hz and vs = "[''UIC'']" and fs = example_fs
      and p = "''data/rf01.nc''"] r1
  have n1: "nc r1 = example_25hz" and a1: "read_flight_nc example_25hz [''UIC''] = read_flight_nc_25hz example_25hz [''UIC'']"
    by (simp_all add: example_fs_def d25)
  from rate_dispatch [where vs = "[''UIC'']" and fs = example_fs and p = "''data/rf01.nc''"] r1 n1 d25
  have t1: "rate r1 = ''25Hz''" by simp
  from rate_dispatch [where ds = example_1hz and vs = "[''Time'']" and fs = example_fs
      and p = "''data/rf02.nc''"] r2
  have n2: "nc r2 = example_1hz" and a2: "read_flight_nc example_1hz [''Time''] = read_flight_nc_1hz example_1hz [''Time'']"
    by (simp_all add: example_fs_def d1)
  from rate_dispatch [where vs = "[''Time'']" and fs = example_fs and p = "''data/rf02.nc''"] r2 n2 d1
  have t2: "rate r2 = ''1Hz''" by simp
  from a1 a2 r1 t1 r2 t2 show ?thesis by blast
qed

section \<open>Missing files\<close>

text \<open>
  Claim C8. \<^verbatim>\<open>open_flight_nc\<close> and \<^verbatim>\<open>flight_obj\<close> end with \<^verbatim>\<open>FileNotFoundError\<close>
  exactly when the path does not name a regular file, and then produce no dataset and
  no record. For a path that names a netCDF file, \<^verbatim>\<open>open_flight_nc\<close> returns its
  dataset, and the constructor goes on to read it: its outcome is the outcome of the
  rate dispatch on that dataset, and a record it returns holds the dataset and the path.
\<close>

theorem file_not_found:
  "(open_flight_nc fs p = Inl FileNotFoundError \<longleftrightarrow> \<not> is_file fs p)
   \<and> (flight_obj fs p vs = Inl FileNotFoundError \<longleftrightarrow> \<not> is_file fs p)
   \<and> (\<forall>h. fs p = Some (NcFile h) \<longrightarrow>
          open_flight_nc fs p = Inr h
          \<and> (\<forall>r. flight_obj fs p vs = Inr r \<longrightarrow> nc r = h \<and> file_path r = p)
          \<and> map_sum id df (flight_obj fs p vs) = read_flight_nc h vs)"
proof -
  have a: "open_flight_nc fs p = Inl FileNotFoundError \<longleftrightarrow> \<not> is_file fs p"
    by (auto simp: open_flight_nc_def split: option.splits node.splits)
  have b: "flight_obj fs p vs = Inl FileNotFoundError \<longleftrightarrow> \<not> is_file fs p"
    by (auto simp: flight_obj_def Let_def split: option.splits node.splits sum.splits
        dest: reader_error)
  have c: "open_flight_nc fs p = Inr h
          \<and> (\<forall>r. flight_obj fs p vs = Inr r \<longrightarrow> nc r = h \<and> file_path r = p)
          \<and> map_sum id df (flight_obj fs p vs) = read_flight_nc h vs"
    if "fs p = Some (NcFile h)" for h
    using that
    by (auto simp: open_flight_nc_def flight_obj_def read_flight_nc_def Let_def
        split: sum.splits)
  from a b c show ?thesis by blast
qed

text \<open>The theorem at the example inputs.\<close>

theorem file_not_found_witness:
  "\<not> is_file example_fs ''data/rf99.nc''
   \<and> open_flight_nc example_fs ''data/rf99.nc'' = Inl FileNotFoundError
   \<and> flight_obj example_fs ''data/rf99.nc'' vars_to_read = Inl FileNotFoundError
   \<and> \<not> is_file example_fs ''root/ONE/lrt''
   \<and> flight_obj example_fs ''root/ONE/lrt'' vars_to_read = Inl FileNotFoundError
   \<and> open_flight_nc example_fs ''data/rf01.nc'' = Inr example_25hz"
proof -
  have n: "\<not> is_file example_fs ''data/rf99.nc''" "\<not> is_file example_fs ''root/ONE/lrt''"
    by (simp_all add: example_fs_def)
  have f: "example_fs ''data/rf01.nc'' = Some (NcFile example_25hz)"
    by (simp add: example_fs_def)
  from file_not_found [of example_fs "''data/rf99.nc''" vars_to_read] n(1)
  have a: "open_flight_nc example_fs ''data/rf99.nc'' = Inl FileNotFoundError"
    "flight_obj example_fs ''data/rf99.nc'' vars_to_read = Inl FileNotFoundError"
    by blast+
  from file_not_found [of example_fs "''root/ONE/lrt''" vars_to_read] n(2)
  have b: "flight_obj example_fs ''root/ONE/lrt'' vars_to_read = Inl FileNotFoundError"
    by blast
  from file_not_found [of example_fs "''data/rf01.nc''" vars_to_read] f
  have c: "open_flight_nc example_fs ''data/rf01.nc'' = Inr example_25hz"
    by blast
  from n a b c show ?thesis by blast
qed

section \<open>Per-variable failures\<close>

text \<open>
  Claim C6, at a request whose only variable is absent from the file. The
  \<^verbatim>\<open>IndexError\<close> of \<^verbatim>\<open>nc[var]\<close> is swallowed and nothing is appended; \<open>data\<close> is then
  empty and \<^verbatim>\<open>pd.concat\<close> raises \<^verbatim>\<open>ValueError\<close> to the caller, in both readers.
\<close>

theorem absent_only_request_raises:
  "variables example_1hz ''FOO'' = None
   \<and> read_flight_nc_1hz example_1hz [''FOO''] = Inl ValueError
   \<and> variables example_25hz ''FOO'' = None
   \<and> read_flight_nc_25hz example_25hz [''FOO''] = Inl ValueError"
  by (simp add: read_flight_nc_1hz_def read_flight_nc_25hz_def var_1hz_def var_25hz_def
      example_1hz_def example_25hz_def pd_concat_def)




section \<open>The variables a flight record obtained\<close>

text \<open>
  Claim C10, amended. For every flight record that \<^verbatim>\<open>flight_obj\<close> constructs,
  \<^verbatim>\<open>read_vars\<close> is the list of column names of its table, and every name in it is a
  requested variable or the derived name \<^verbatim>\<open>datetime\<close>; \<^verbatim>\<open>datetime\<close> occurs only if
  \<^verbatim>\<open>Time\<close> (or \<^verbatim>\<open>datetime\<close> itself) was requested.
\<close>

theorem read_vars_within_request:
  assumes "flight_obj fs p vs = Inr r"
  shows "set (read_vars r) \<subseteq> set vs \<union> {''datetime''}
         \<and> (''datetime'' \<in> set (read_vars r) \<longrightarrow> ''Time'' \<in> set vs \<or> ''datetime'' \<in> set vs)
         \<and> read_vars r = map fst (df r)
         \<and> read_vars_attempted r = vs"
proof -
  from flight_obj_Inr [OF assms] obtain h tbl where
    rd: "read_flight_nc_25hz h vs = Inr tbl \<or> read_flight_nc_1hz h vs = Inr tbl"
    and r: "read_vars_attempted r = vs" "df r = tbl" "read_vars r = map fst tbl"
    by (auto split: if_splits)
  from rd have sub: "set (map fst tbl) \<subseteq> set vs \<union> {''datetime''}"
    using reader_25hz_names(1) reader_1hz_names(1) by blast
  from rd have dt: "''datetime'' \<in> set (map fst tbl) \<Longrightarrow> ''Time'' \<in> set vs \<or> ''datetime'' \<in> set vs"
    using reader_25hz_names(2) reader_1hz_names(2) by blast
  from sub dt r show ?thesis by simp
qed

text \<open>The theorem at the example inputs.\<close>

theorem read_vars_within_request_witness:
  "\<exists>r. flight_obj example_fs ''data/rf02.nc'' [''Time''] = Inr r
      \<and> set (read_vars r) \<subseteq> set [''Time''] \<union> {''datetime''}
      \<and> read_vars r = map fst (df r)
      \<and> read_vars_attempted r = [''Time'']"
proof -
  have "\<exists>r. flight_obj example_fs ''data/rf02.nc'' [''Time''] = Inr r"
    by (simp add: flight_obj_def example_fs_def example_1hz_Time)
       (simp add: example_1hz_def)
  then obtain r where r: "flight_obj example_fs ''data/rf02.nc'' [''Time''] = Inr r" ..
  from read_vars_within_request [OF r] r show ?thesis by blast
qed

text \<open>
  Claim C10 as stated fails: for the request \<^verbatim>\<open>['Time']\<close> on the 1 Hz example file the
  record's \<^verbatim>\<open>read_vars\<close> is \<^verbatim>\<open>['Time', 'datetime']\<close>, which is not a subset of the
  request.
\<close>

theorem read_vars_datetime_counterexample:
  "map_sum id read_vars (flight_obj example_fs ''data/rf02.nc'' [''Time''])
     = Inr [''Time'', ''datetime'']
   \<and> \<not> set [''Time'', ''datetime''] \<subseteq> set [''Time'']"
  by (simp add: flight_obj_def example_fs_def example_1hz_Time)
     (simp add: example_1hz_def)

section \<open>Scanning campaigns\<close>

text \<open>
  Claim C9, amended. A campaign whose directory exists and lists no name ending in
  \<^verbatim>\<open>.nc\<close> gets an empty per-file mapping, and the scan goes on with the next campaign
  (at any point of the scan, whatever was collected before). A campaign whose directory
  does not exist ends the scan with the \<^verbatim>\<open>FileNotFoundError\<close> of the directory
  listing. The names \<^verbatim>\<open>find_flight_fnames\<close> returns are the listed names ending in
  \<^verbatim>\<open>.nc\<close> in sorted order, and the per-file mapping of a campaign that is read
  completely has exactly these keys in this order.
\<close>

theorem campaign_scan:
  "(\<forall>names. fs (data_dir @ ''/'' @ c @ ''/lrt'') = Some (Dir names)
       \<longrightarrow> (\<forall>f \<in> set names. \<not> endswith f ''.nc'')
       \<longrightarrow> campaigns_loop fs data_dir vs (c # cs) acc
             = campaigns_loop fs data_dir vs cs (AList.update c [] acc)
           \<and> read_all_flights fs data_dir [c] vs = Inr [(c, [])])
   \<and> (fs (data_dir @ ''/'' @ c @ ''/lrt'') = None
       \<longrightarrow> campaigns_loop fs data_dir vs (c # cs) acc = Inl FileNotFoundError)
   \<and> (\<forall>names fnames fd. fs dir = Some (Dir names) \<longrightarrow> distinct names
       \<longrightarrow> find_flight_fnames fs dir = Inr fnames
       \<longrightarrow> sorted fnames
           \<and> set fnames = {f \<in> set names. endswith f ''.nc''}
           \<and> (flights_loop fs dir vs fnames [] = Inr fd \<longrightarrow> map fst fd = fnames))"
proof -
  have empty: "campaigns_loop fs data_dir vs (c # cs) acc
             = campaigns_loop fs data_dir vs cs (AList.update c [] acc)
           \<and> read_all_flights fs data_dir [c] vs = Inr [(c, [])]"
    if "fs (data_dir @ ''/'' @ c @ ''/lrt'') = Some (Dir names)"
      and "\<forall>f \<in> set names. \<not> endswith f ''.nc''" for names
  proof -
    from that(2) have "filter (\<lambda>f. endswith f ''.nc'') names = []"
      by (simp add: filter_empty_conv)
    with that(1) have "find_flight_fnames fs (data_dir @ ''/'' @ c @ ''/lrt'') = Inr []"
      by (simp add: find_flight_fnames_def)
    then show ?thesis
      by (simp add: read_all_flights_def Let_def)
  qed
  have missing: "campaigns_loop fs data_dir vs (c # cs) acc = Inl FileNotFoundError"
    if "fs (data_dir @ ''/'' @ c @ ''/lrt'') = None"
    using that by (simp add: find_flight_fnames_def Let_def)
  have order: "sorted fnames
           \<and> set fnames = {f \<in> set names. endswith f ''.nc''}
           \<and> (flights_loop fs dir vs fnames [] = Inr fd \<longrightarrow> map fst fd = fnames)"
    if "fs dir = Some (Dir names)" and "distinct names"
      and "find_flight_fnames fs dir = Inr fnames" for names fnames fd
  proof -
    from that(1,3) have eq: "fnames = sort (filter (\<lambda>f. endswith f ''.nc'') names)"
      by (simp add: find_flight_fnames_def)
    from that(2) have d: "distinct fnames" by (simp add: eq)
    have "map fst fd = fnames" if "flights_loop fs dir vs fnames [] = Inr fd"
      using flights_loop_keys [OF that d] by simp
    then show ?thesis by (auto simp: eq)
  qed
  from empty missing order show ?thesis by blast
qed

text \<open>The theorem at the example inputs.\<close>

theorem campaign_scan_witness:
  "read_all_flights example_fs ''root'' [''EMPTY''] [''GGALT''] = Inr [(''EMPTY'', [])]
   \<and> (\<exists>fd. read_all_flights example_fs ''root'' [''EMPTY'', ''ONE''] [''GGALT'']
              = Inr [(''EMPTY'', []), (''ONE'', fd)]
          \<and> map fst fd = [''rf01.nc'', ''rf02.nc''])"
proof -
  let ?names = "[''notes.txt'', ''README'']"
  let ?listing = "[''rf02.nc'', ''plot.png'', ''rf01.nc'']"
  have d0: "example_fs (''root'' @ ''/'' @ ''EMPTY'' @ ''/lrt'') = Some (Dir ?names)"
    by (simp add: example_fs_def)
  have none: "\<forall>f \<in> set ?names. \<not> endswith f ''.nc''"
    by (simp add: endswith_def)
  have d1: "example_fs ''root/ONE/lrt'' = Some (Dir ?listing)"
    by (simp add: example_fs_def)
  have dist: "distinct ?listing" by simp
  note scan = campaign_scan [where fs = example_fs and data_dir = "''root''" and c = "''EMPTY''"
      and vs = "[''GGALT'']" and dir = "''root/ONE/lrt''"]
  from scan [where cs = "[]"] d0 none
  have one: "read_all_flights example_fs ''root'' [''EMPTY''] [''GGALT''] = Inr [(''EMPTY'', [])]"
    by blast
  from scan [where cs = "[''ONE'']" and acc = "[]"] d0 none
  have step: "campaigns_loop example_fs ''root'' [''GGALT''] [''EMPTY'', ''ONE''] []
                = campaigns_loop example_fs ''root'' [''GGALT''] [''ONE''] [(''EMPTY'', [])]"
    by auto
  from example_flights obtain fd where
    fd: "flights_loop example_fs ''root/ONE/lrt'' [''GGALT''] [''rf01.nc'', ''rf02.nc''] []
           = Inr fd" ..
  from scan [where cs = "[]"] d1 dist example_find fd
  have keys: "map fst fd = [''rf01.nc'', ''rf02.nc'']"
    by blast
  have all: "read_all_flights example_fs ''root'' [''EMPTY'', ''ONE''] [''GGALT'']
          = Inr [(''EMPTY'', []), (''ONE'', fd)]"
    unfolding read_all_flights_def step
    by (simp add: example_find fd del: flights_loop.simps)
  show ?thesis
  proof (intro conjI exI)
    show "read_all_flights example_fs ''root'' [''EMPTY''] [''GGALT''] = Inr [(''EMPTY'', [])]"
      by (fact one)
    show "read_all_flights example_fs ''root'' [''EMPTY'', ''ONE''] [''GGALT'']
            = Inr [(''EMPTY'', []), (''ONE'', fd)]"
      by (fact all)
    show "map fst fd = [''rf01.nc'', ''rf02.nc'']"
      by (fact keys)
  qed
qed

text \<open>
  Claim C9 as stated fails for a missing directory: \<^verbatim>\<open>root/MISSING/lrt\<close> does not
  exist in the example file system, and the scan of the campaigns \<^verbatim>\<open>MISSING\<close> and
  \<^verbatim>\<open>EMPTY\<close> ends with \<^verbatim>\<open>FileNotFoundError\<close> instead of two empty mappings.
\<close>

theorem missing_campaign_dir_counterexample:
  "example_fs ''root/MISSING/lrt'' = None
   \<and> read_all_flights example_fs ''root'' [''MISSING'', ''EMPTY''] vars_to_read
       = Inl FileNotFoundError"
  by (simp add: read_all_flights_def find_flight_fnames_def example_fs_def)

end
